theory Spec2Isabelle
  imports Complex_Main
begin

section \<open>JavaScript values used by the chart code\<close>

text \<open>
  The chart (\<^verbatim>\<open>src/tags/object/TimeSeries/Channel.js\<close> and its older near-duplicate
  \<^verbatim>\<open>unnamed/part_000\<close>) computes with JavaScript numbers. Finite numbers are idealised
  as \<^typ>\<open>real\<close> (no rounding). The values that decide control flow in the source
  beyond finite numbers are kept explicit:
  \<^item> reading an array past its end gives \<^verbatim>\<open>undefined\<close>: \<open>at_index\<close> returns \<open>None\<close>;
  \<^item> arithmetic on \<^verbatim>\<open>undefined\<close> gives \<^verbatim>\<open>NaN\<close>, and every comparison with \<^verbatim>\<open>NaN\<close>
    is false: \<open>js_sub\<close>, \<open>js_gt\<close>, \<open>js_lt\<close>, \<open>js_eq\<close> on \<^typ>\<open>real option\<close>,
    \<open>None\<close> standing for \<^verbatim>\<open>undefined\<close> before and \<^verbatim>\<open>NaN\<close> after a numeric coercion;
  \<^item> a division can give \<^verbatim>\<open>NaN\<close> or an infinity: \<open>jsnum\<close>.
\<close>

definition at_index :: "'a list \<Rightarrow> nat \<Rightarrow> 'a option" where
  "at_index xs i = (if i < length xs then Some (xs ! i) else None)"

definition js_sub :: "real option \<Rightarrow> real option \<Rightarrow> real option" where
  "js_sub a b =
     (case a of None \<Rightarrow> None
      | Some u \<Rightarrow> (case b of None \<Rightarrow> None | Some v \<Rightarrow> Some (u - v)))"

definition js_lt :: "real option \<Rightarrow> real option \<Rightarrow> bool" where
  "js_lt a b =
     (case a of None \<Rightarrow> False
      | Some u \<Rightarrow> (case b of None \<Rightarrow> False | Some v \<Rightarrow> u < v))"

definition js_gt :: "real option \<Rightarrow> real option \<Rightarrow> bool" where
  "js_gt a b = js_lt b a"

text \<open>Strict equality \<^verbatim>\<open>a === b\<close> of a possibly-\<^verbatim>\<open>NaN\<close> number with a number.\<close>

definition js_eq :: "real option \<Rightarrow> real \<Rightarrow> bool" where
  "js_eq a v = (case a of None \<Rightarrow> False | Some u \<Rightarrow> u = v)"

text \<open>\<^verbatim>\<open>a <= b\<close> and \<^verbatim>\<open>a === b\<close> of two possibly-\<^verbatim>\<open>NaN\<close> numbers.\<close>

definition js_le :: "real option \<Rightarrow> real option \<Rightarrow> bool" where
  "js_le a b =
     (case a of None \<Rightarrow> False
      | Some u \<Rightarrow> (case b of None \<Rightarrow> False | Some v \<Rightarrow> u \<le> v))"

definition js_seq :: "real option \<Rightarrow> real option \<Rightarrow> bool" where
  "js_seq a b = (case b of None \<Rightarrow> False | Some v \<Rightarrow> js_eq a v)"

datatype jsnum = Num real | NaN | PosInf | NegInf

text \<open>\<^verbatim>\<open>a / b\<close> on finite numbers (the zero divisor taken as \<^verbatim>\<open>+0\<close>).\<close>

definition js_div :: "real \<Rightarrow> real \<Rightarrow> jsnum" where
  "js_div a b =
     (if b = 0 then (if a = 0 then NaN else if 0 < a then PosInf else NegInf)
      else Num (a / b))"

text \<open>\<^verbatim>\<open>v > z\<close> for a finite \<open>z\<close>.\<close>

fun jsnum_gt :: "jsnum \<Rightarrow> real \<Rightarrow> bool" where
  "jsnum_gt (Num a) z = (z < a)"
| "jsnum_gt NaN z = False"
| "jsnum_gt PosInf z = True"
| "jsnum_gt NegInf z = False"

text \<open>\<^verbatim>\<open>Math.max(0, Math.floor(v))\<close>.\<close>

fun max0_floor :: "jsnum \<Rightarrow> jsnum" where
  "max0_floor (Num a) = Num (of_int (max 0 \<lfloor>a\<rfloor>))"
| "max0_floor NaN = NaN"
| "max0_floor PosInf = PosInf"
| "max0_floor NegInf = Num 0"

text \<open>\<^verbatim>\<open>a !== b\<close> on numbers: \<^verbatim>\<open>NaN\<close> differs from everything, itself included.\<close>

fun jsnum_neq :: "jsnum \<Rightarrow> jsnum \<Rightarrow> bool" where
  "jsnum_neq NaN b = True"
| "jsnum_neq a NaN = True"
| "jsnum_neq (Num a) (Num b) = (a \<noteq> b)"
| "jsnum_neq PosInf PosInf = False"
| "jsnum_neq NegInf NegInf = False"
| "jsnum_neq a b = True"

text \<open>
  \<^verbatim>\<open>arr[v]\<close> for a number \<open>v\<close>: an element only when \<open>v\<close> is a non-negative integer below
  the length, \<^verbatim>\<open>undefined\<close> otherwise.
\<close>

fun at_jsnum :: "'a list \<Rightarrow> jsnum \<Rightarrow> 'a option" where
  "at_jsnum xs (Num a) =
     (if 0 \<le> a \<and> of_int \<lfloor>a\<rfloor> = a then at_index xs (nat \<lfloor>a\<rfloor>) else None)"
| "at_jsnum xs NaN = None"
| "at_jsnum xs PosInf = None"
| "at_jsnum xs NegInf = None"

section \<open>Projection\<close>

text \<open>
  Modelled from the spec: the Projection of spec section 4.1 is a linear scale of the
  drawing library (\<^verbatim>\<open>d3.scaleLinear().domain(..).range(..)\<close>), whose code is not under
  \<^verbatim>\<open>src/\<close>. A projection has a data domain and a pixel range; \<open>scale_apply\<close> is the
  call \<^verbatim>\<open>x(t)\<close> and \<open>invert\<close> is \<^verbatim>\<open>x.invert(px)\<close>. Both interpolate linearly; a
  collapsed interval normalises to the constant one half (spec section 7: no division
  by zero, a constant output). The numeric (linear) kind is modelled.
\<close>

record projection =
  domain0 :: real
  domain1 :: real
  range0 :: real
  range1 :: real

definition normalize :: "real \<Rightarrow> real \<Rightarrow> real \<Rightarrow> real" where
  "normalize a b v = (if b - a = 0 then 1 / 2 else (v - a) / (b - a))"

definition interpolate :: "real \<Rightarrow> real \<Rightarrow> real \<Rightarrow> real" where
  "interpolate a b t = a * (1 - t) + b * t"

definition scale_apply :: "projection \<Rightarrow> real \<Rightarrow> real" where
  "scale_apply p t =
     interpolate (range0 p) (range1 p) (normalize (domain0 p) (domain1 p) t)"

definition invert :: "projection \<Rightarrow> real \<Rightarrow> real" where
  "invert p px =
     interpolate (domain0 p) (domain1 p) (normalize (range0 p) (range1 p) px)"

section \<open>Snap resolver\<close>

text \<open>
  Modelled from the spec: \<^verbatim>\<open>d3.bisectLeft\<close> (spec section 4.3: binary search of the
  time sequence for the insertion point) belongs to the drawing library, not to
  \<^verbatim>\<open>src/\<close>. The loop halves the interval \<open>[lo, hi)\<close>, moving \<open>lo\<close> past \<open>mid\<close>
  when \<^verbatim>\<open>a[mid] < v\<close>.
\<close>

function bisect_loop :: "real list \<Rightarrow> real \<Rightarrow> nat \<Rightarrow> nat \<Rightarrow> nat" where
  "bisect_loop a v lo hi =
     (if lo < hi
      then (let mid = (lo + hi) div 2
            in if js_lt (at_index a mid) (Some v)
               then bisect_loop a v (mid + 1) hi
               else bisect_loop a v lo mid)
      else lo)"
  by pat_completeness auto
termination
  by (relation "measure (\<lambda>(a, v, lo, hi). hi - lo)") auto

definition bisectLeft :: "real list \<Rightarrow> real \<Rightarrow> nat" where
  "bisectLeft a v = bisect_loop a v 0 (length a)"

text \<open>
  \<^verbatim>\<open>stick\<close> of \<^verbatim>\<open>Channel.js\<close> (lines 355-360), a closure over the live projection
  \<open>x\<close> and the arrays \<^verbatim>\<open>times\<close> and \<^verbatim>\<open>values\<close>:
  \<^verbatim>\<open>
  const dataX = x.invert(screenX);
  let i = d3.bisectLeft(times, dataX);
  if (dataX - times[i] > times[i + 1] - dataX) i++;
  return [times[i], values[i]];
  \<close>
\<close>

definition stick ::
  "projection \<Rightarrow> real list \<Rightarrow> real list \<Rightarrow> real \<Rightarrow> real option \<times> real option" where
  "stick x tms vals screenX =
     (let dataX = invert x screenX;
          i = bisectLeft tms dataX;
          i' = (if js_gt (js_sub (Some dataX) (at_index tms i))
                         (js_sub (at_index tms (i + 1)) (Some dataX))
                then i + 1 else i)
      in (at_index tms i', at_index vals i'))"

text \<open>
  \<^verbatim>\<open>getRegion(selection, isInstant)\<close> (lines 136-139): both ends of the selection go
  through \<open>stick\<close>; the unary plus turns a missing time into \<^verbatim>\<open>NaN\<close> (\<open>None\<close>).
\<close>

record bounds =
  b_start :: "real option"
  b_end :: "real option"

definition getRegion ::
  "projection \<Rightarrow> real list \<Rightarrow> real list \<Rightarrow> real \<times> real \<Rightarrow> bool \<Rightarrow> bounds" where
  "getRegion x tms vals sel isInstant =
     (let start = fst (stick x tms vals (fst sel));
          end' = fst (stick x tms vals (snd sel))
      in \<lparr>b_start = start, b_end = (if isInstant then start else end')\<rparr>)"

text \<open>The same two functions as \<^verbatim>\<open>unnamed/part_000\<close> has them (lines 276-281, 121-124).\<close>

definition stick_p0 ::
  "projection \<Rightarrow> real list \<Rightarrow> real list \<Rightarrow> real \<Rightarrow> real option \<times> real option" where
  "stick_p0 x tms vals screenX =
     (let dataX = invert x screenX;
          i = bisectLeft tms dataX;
          i' = (if js_gt (js_sub (Some dataX) (at_index tms i))
                         (js_sub (at_index tms (i + 1)) (Some dataX))
                then i + 1 else i)
      in (at_index tms i', at_index vals i'))"

definition getRegion_p0 ::
  "projection \<Rightarrow> real list \<Rightarrow> real list \<Rightarrow> real \<times> real \<Rightarrow> bool \<Rightarrow> bounds" where
  "getRegion_p0 x tms vals sel isInstant =
     (let start = fst (stick_p0 x tms vals (fst sel));
          end' = fst (stick_p0 x tms vals (snd sel))
      in \<lparr>b_start = start, b_end = (if isInstant then start else end')\<rparr>)"

section \<open>Regions, brush events and deferred calls\<close>

text \<open>
  A region as the chart reads it from the external store (spec section 3). The store
  and the region objects are not under \<^verbatim>\<open>src/\<close>; the chart only reads these fields
  and makes the outward calls listed in \<open>call\<close>.
\<close>

record region =
  r_id :: string
  r_start :: real
  r_end :: real
  r_instant :: bool
  r_selected :: bool
  r_highlighted :: bool

text \<open>
  \<^verbatim>\<open>d3.event\<close> at the end of a brush gesture: \<open>sourceEvent\<close> is absent for a
  programmatic move, and otherwise carries the pointer's x (what
  \<^verbatim>\<open>d3.mouse(d3.event.sourceEvent.target)[0]\<close> reads); \<open>selection\<close> is absent when the
  brush was cleared.
\<close>

record d3event =
  sourceEvent :: "real option"
  selection :: "(real \<times> real) option"

text \<open>
  Outward calls: \<^verbatim>\<open>regionStore.unselectAll()\<close>, \<^verbatim>\<open>r.selectRegion()\<close> on the region object
  at a position of the list the handler saw, \<^verbatim>\<open>parent.updateView()\<close>,
  \<^verbatim>\<open>parent.regionChanged(bounds, index)\<close>, and \<^verbatim>\<open>brush.move(this.gCreator, null)\<close>.
\<close>

datatype call =
  UnselectAll
| SelectRegion nat
| UpdateView
| RegionChanged bounds nat
| BrushMoveNull

text \<open>
  The closures handed to \<^verbatim>\<open>clearD3Event\<close>. \<open>CreateTask\<close> reads
  \<^verbatim>\<open>this.props.ranges.length\<close> when it runs, not when it is scheduled; \<open>MoveTask\<close>
  carries the index found by the handler.
\<close>

datatype task =
  ClickTask nat
| MoveTask bounds nat
| CreateTask bounds
| ClearTask

fun run_task :: "region list \<Rightarrow> task \<Rightarrow> call list" where
  "run_task ranges (ClickTask i) = [UnselectAll, SelectRegion i, UpdateView]"
| "run_task ranges (MoveTask moved i) = [RegionChanged moved i]"
| "run_task ranges (CreateTask reg) = [RegionChanged reg (length ranges)]"
| "run_task ranges ClearTask = [BrushMoveNull]"

text \<open>
  The event loop as far as the handlers see it: the timer queue, the outward calls made
  so far, and what was written with \<^verbatim>\<open>console.error\<close>.
\<close>

record loop =
  queue :: "task list"
  calls :: "call list"
  console :: "string list"

text \<open>\<^verbatim>\<open>const clearD3Event = f => setTimeout(f, 0);\<close>: the closure joins the timer queue.\<close>

definition clearD3Event :: "task \<Rightarrow> loop \<Rightarrow> loop" where
  "clearD3Event f s = s\<lparr>queue := queue s @ [f]\<rparr>"

text \<open>One turn of the timer queue, with the region list the component holds by then.\<close>

definition tick :: "region list \<Rightarrow> loop \<Rightarrow> loop" where
  "tick ranges s =
     (case queue s of
        [] \<Rightarrow> s
      | f # rest \<Rightarrow> s\<lparr>queue := rest, calls := calls s @ run_task ranges f\<rparr>)"

fun drain :: "region list \<Rightarrow> task list \<Rightarrow> call list" where
  "drain ranges [] = []"
| "drain ranges (f # rest) = run_task ranges f @ drain ranges rest"

text \<open>\<^verbatim>\<open>ranges.findIndex(p)\<close>: the first position where \<open>p\<close> holds, or \<open>-1\<close>.\<close>

fun findIndex_from :: "('a \<Rightarrow> bool) \<Rightarrow> 'a list \<Rightarrow> int \<Rightarrow> int" where
  "findIndex_from p [] k = - 1"
| "findIndex_from p (y # ys) k = (if p y then k else findIndex_from p ys (k + 1))"

definition findIndex :: "('a \<Rightarrow> bool) \<Rightarrow> 'a list \<Rightarrow> int" where
  "findIndex p ys = findIndex_from p ys 0"

text \<open>\<^verbatim>\<open>ranges[i]\<close> for the integer \<open>i\<close> that \<open>findIndex\<close> returned.\<close>

definition at_int :: "'a list \<Rightarrow> int \<Rightarrow> 'a option" where
  "at_int ys i = (if i < 0 then None else at_index ys (nat i))"

datatype error = TypeError

text \<open>
  \<^verbatim>\<open>brushend(id)\<close> of \<^verbatim>\<open>renderBrushes\<close> (\<^verbatim>\<open>Channel.js\<close> lines 158-175; the same text in
  \<^verbatim>\<open>part_000\<close> lines 138-155):
  \<^verbatim>\<open>
  if (!d3.event.sourceEvent || !d3.event.selection) return;
  const i = ranges.findIndex(range => range.id === id);
  if (i < 0) console.error(`REGION ${id} was not found`);
  const r = ranges[i];
  const moved = this.getRegion(d3.event.selection, r.instant);
  if (moved.start === r.start && moved.end === r.end) {
    clearD3Event(() => { ...unselectAll(); r.selectRegion(); ...updateView(); });
  } else {
    clearD3Event(() => this.props.item.parent.regionChanged(moved, i));
  }
  \<close>
  Reading \<^verbatim>\<open>r.instant\<close> of an \<^verbatim>\<open>undefined\<close> \<open>r\<close> throws a \<^verbatim>\<open>TypeError\<close>: the result is
  \<open>Inl\<close> with the state reached at the throw.
\<close>

definition brushend ::
  "projection \<Rightarrow> real list \<Rightarrow> real list \<Rightarrow> region list \<Rightarrow> string \<Rightarrow> d3event \<Rightarrow> loop
     \<Rightarrow> (error \<times> loop) + loop" where
  "brushend x tms vals ranges ident ev s =
     (case sourceEvent ev of
        None \<Rightarrow> Inr s
      | Some mx \<Rightarrow>
          (case selection ev of
             None \<Rightarrow> Inr s
           | Some sel \<Rightarrow>
               (let i = findIndex (\<lambda>rg. r_id rg = ident) ranges;
                    s1 = (if i < 0
                          then s\<lparr>console := console s
                                   @ [''REGION '' @ ident @ '' was not found'']\<rparr>
                          else s)
                in case at_int ranges i of
                     None \<Rightarrow> Inl (TypeError, s1)
                   | Some r \<Rightarrow>
                       (let moved = getRegion x tms vals sel (r_instant r)
                        in if js_eq (b_start moved) (r_start r)
                              \<and> js_eq (b_end moved) (r_end r)
                           then Inr (clearD3Event (ClickTask (nat i)) s1)
                           else Inr (clearD3Event (MoveTask moved (nat i)) s1)))))"

text \<open>
  The \<^verbatim>\<open>"end"\<close> handler of the creation brush in \<^verbatim>\<open>brushCreator\<close> (\<^verbatim>\<open>Channel.js\<close> lines
  253-274; \<^verbatim>\<open>part_000\<close> lines 214-235). \<open>activeStates\<close> is what
  \<^verbatim>\<open>parent.activeStates()\<close> returned (\<open>None\<close> for a null result);
  \<^verbatim>\<open>activeStates && activeStates.length\<close> is truthy for a non-empty list.
  \<^verbatim>\<open>getRegion\<close> is called without its second argument, which reads as false.
\<close>

definition statesSelected :: "'l list option \<Rightarrow> bool" where
  "statesSelected activeStates =
     (case activeStates of None \<Rightarrow> False | Some ls \<Rightarrow> length ls \<noteq> 0)"

definition brushCreator_end ::
  "projection \<Rightarrow> real list \<Rightarrow> real list \<Rightarrow> 'l list option \<Rightarrow> d3event \<Rightarrow> loop \<Rightarrow> loop" where
  "brushCreator_end x tms vals activeStates ev s =
     (case sourceEvent ev of
        None \<Rightarrow> s
      | Some mx \<Rightarrow>
          (case selection ev of
             None \<Rightarrow>
               (if statesSelected activeStates
                then clearD3Event (CreateTask (getRegion x tms vals (mx, mx) False)) s
                else s)
           | Some sel \<Rightarrow>
               (let reg = getRegion x tms vals sel False;
                    s1 = clearD3Event ClearTask s
                in if \<not> statesSelected activeStates then s1
                   else clearD3Event (CreateTask reg) s1)))"

text \<open>
  Modelled from the spec: the external store's reaction to the select calls (spec
  sections 4.5 and 6: \<^verbatim>\<open>unselectAll()\<close> clears every selection, selecting a region
  marks that region selected, a view update changes no region). What the store does
  on \<^verbatim>\<open>regionChanged\<close> is not modelled: that call is only recorded.
\<close>

fun store_call :: "call \<Rightarrow> region list \<Rightarrow> region list" where
  "store_call UnselectAll rs = map (\<lambda>r. r\<lparr>r_selected := False\<rparr>) rs"
| "store_call (SelectRegion i) rs =
     (if i < length rs then rs[i := (rs ! i)\<lparr>r_selected := True\<rparr>] else rs)"
| "store_call UpdateView rs = rs"
| "store_call (RegionChanged b i) rs = rs"
| "store_call BrushMoveNull rs = rs"

fun store_calls :: "call list \<Rightarrow> region list \<Rightarrow> region list" where
  "store_calls [] rs = rs"
| "store_calls (c # cs) rs = store_calls cs (store_call c rs)"

section \<open>Level of detail and the viewport controller\<close>

text \<open>
  A series (\<^verbatim>\<open>this.props.series\<close>) is a list of samples (time, value). The component
  instance \<^verbatim>\<open>ChannelD3\<close> keeps the fields below; a drawn path is recorded by the last
  datum bound to it (\<open>None\<close> after \<^verbatim>\<open>path.datum(undefined)\<close>), the last generator
  applied to it (\<^verbatim>\<open>this.line\<close> or \<^verbatim>\<open>this.lineSlice\<close>, with the series it was applied
  to) and its last transform.
\<close>

type_synonym sample = "real \<times> real"

datatype generator = Line | LineSlice

datatype drawn = EmptyPath | Drawn generator "sample list"

datatype transform = NoTransform | TranslateScale real jsnum

record svgpath =
  p_datum :: "sample list option"
  p_d :: drawn
  p_transform :: transform

record channelD3 =
  zoomStep :: nat
  optimizedSeries :: "sample list option"
  needZoomOptimization :: bool
  slices :: "sample list list"
  x_live :: projection
  plotX :: projection
  path :: svgpath
  path2 :: svgpath

text \<open>
  The first statements of \<^verbatim>\<open>componentDidMount\<close> that decide on decimation
  (\<^verbatim>\<open>Channel.js\<close> lines 317-321, \<^verbatim>\<open>part_000\<close> lines 257-261):
  \<^verbatim>\<open>
  this.needZoomOptimization = series.length > getOptimalWidth() * this.zoomStep;
  if (this.needZoomOptimization) {
    this.optimizedSeries = sparseValues(series, getOptimalWidth() * this.zoomStep);
  }
  \<close>
  \<^verbatim>\<open>sparseValues\<close> and \<^verbatim>\<open>getOptimalWidth\<close> come from \<^verbatim>\<open>./helpers\<close>, which is not under
  \<^verbatim>\<open>src/\<close>: the first is a parameter, the second is given by the value it returns.
\<close>

definition componentDidMount ::
  "(sample list \<Rightarrow> nat \<Rightarrow> sample list) \<Rightarrow> nat \<Rightarrow> sample list \<Rightarrow> channelD3 \<Rightarrow> channelD3" where
  "componentDidMount sparseValues getOptimalWidth series c =
     (let c1 = c\<lparr>needZoomOptimization := length series > getOptimalWidth * zoomStep c\<rparr>
      in if needZoomOptimization c1
         then c1\<lparr>optimizedSeries := Some (sparseValues series (getOptimalWidth * zoomStep c1))\<rparr>
         else c1)"

text \<open>
  The quantities \<^verbatim>\<open>setRangeWithScaling\<close> computes from the live projection \<open>x\<close> (after
  \<^verbatim>\<open>this.x.domain(range)\<close>) and the full-extent projection \<open>plot\<close>:
  \<^verbatim>\<open>
  const current = this.x.range();
  const all = this.plotX.domain().map(this.x);
  const scale = (all[1] - all[0]) / (current[1] - current[0]);
  const left = Math.max(0, Math.floor((this.zoomStep * (current[0] - all[0])) / (all[1] - all[0])));
  const right = Math.max(0, Math.floor((this.zoomStep * (current[1] - all[0])) / (all[1] - all[0])));
  const translate = all[0] - current[0];
  \<close>
\<close>

definition set_domain :: "real \<times> real \<Rightarrow> projection \<Rightarrow> projection" where
  "set_domain rng x = x\<lparr>domain0 := fst rng, domain1 := snd rng\<rparr>"

definition all_of :: "projection \<Rightarrow> projection \<Rightarrow> real \<times> real" where
  "all_of x plot = (scale_apply x (domain0 plot), scale_apply x (domain1 plot))"

definition scale_of :: "projection \<Rightarrow> projection \<Rightarrow> jsnum" where
  "scale_of x plot =
     js_div (snd (all_of x plot) - fst (all_of x plot)) (range1 x - range0 x)"

definition left_of :: "nat \<Rightarrow> projection \<Rightarrow> projection \<Rightarrow> jsnum" where
  "left_of z x plot =
     max0_floor (js_div (real z * (range0 x - fst (all_of x plot)))
                        (snd (all_of x plot) - fst (all_of x plot)))"

definition right_of :: "nat \<Rightarrow> projection \<Rightarrow> projection \<Rightarrow> jsnum" where
  "right_of z x plot =
     max0_floor (js_div (real z * (range1 x - fst (all_of x plot)))
                        (snd (all_of x plot) - fst (all_of x plot)))"

definition translate_of :: "projection \<Rightarrow> projection \<Rightarrow> real" where
  "translate_of x plot = fst (all_of x plot) - range0 x"

text \<open>
  \<^verbatim>\<open>path.attr("d", generator)\<close>: the generator is called on the datum bound to the
  path and reads its \<^verbatim>\<open>length\<close>. On an \<^verbatim>\<open>undefined\<close> datum that read throws a
  \<^verbatim>\<open>TypeError\<close> and the attribute is not set: \<open>None\<close>.
\<close>

definition attr_d :: "generator \<Rightarrow> svgpath \<Rightarrow> svgpath option" where
  "attr_d g p =
     (case p_datum p of None \<Rightarrow> None | Some data \<Rightarrow> Some (p\<lparr>p_d := Drawn g data\<rparr>))"

text \<open>
  \<^verbatim>\<open>setRangeWithScaling(range)\<close> of \<^verbatim>\<open>Channel.js\<close> (lines 504-555). The test
  \<^verbatim>\<open>this.optimizedSeries && scale > this.zoomStep === this.needZoomOptimization\<close> reads
  \<^verbatim>\<open>(scale > zoomStep) === needZoomOptimization\<close>. \<^verbatim>\<open>console.log\<close> and \<^verbatim>\<open>renderAxis\<close>
  touch none of the fields modelled. A bucket \<^verbatim>\<open>this.slices[left]\<close> or
  \<^verbatim>\<open>this.slices[right]\<close> that does not exist is bound as \<^verbatim>\<open>undefined\<close>, and drawing it
  throws: the result is \<open>Inl\<close> with the state reached at the throw.
\<close>

definition setRangeWithScaling ::
  "real \<times> real \<Rightarrow> channelD3 \<Rightarrow> (error \<times> channelD3) + channelD3" where
  "setRangeWithScaling rng c =
     (let x' = set_domain rng (x_live c);
          c0 = c\<lparr>x_live := x'\<rparr>;
          scale = scale_of x' (plotX c0);
          left = left_of (zoomStep c0) x' (plotX c0);
          right = right_of (zoomStep c0) x' (plotX c0);
          translate = translate_of x' (plotX c0);
          c1 = (case optimizedSeries c0 of
                  None \<Rightarrow> c0
                | Some opt \<Rightarrow>
                    (if jsnum_gt scale (real (zoomStep c0)) = needZoomOptimization c0
                     then (let c' = c0\<lparr>needZoomOptimization := \<not> needZoomOptimization c0\<rparr>
                           in if needZoomOptimization c'
                              then c'\<lparr>path := (path c')\<lparr>p_datum := Some opt,
                                          p_d := Drawn Line opt\<rparr>\<rparr>
                              else c'\<lparr>path := (path c')\<lparr>p_transform := NoTransform\<rparr>\<rparr>)
                     else c0))
      in if needZoomOptimization c1
         then Inr (c1\<lparr>path := (path c1)\<lparr>p_transform := TranslateScale translate scale\<rparr>,
                      path2 := (path2 c1)\<lparr>p_d := EmptyPath\<rparr>\<rparr>)
         else if optimizedSeries c1 \<noteq> None
         then (let c2 = c1\<lparr>path := (path c1)\<lparr>p_datum := at_jsnum (slices c1) left\<rparr>\<rparr>
               in case attr_d LineSlice (path c2) of
                    None \<Rightarrow> Inl (TypeError, c2)
                  | Some p \<Rightarrow>
                      (let c3 = c2\<lparr>path := p\<rparr>
                       in if jsnum_neq left right
                          then (let c4 = c3\<lparr>path2 := (path2 c3)
                                           \<lparr>p_datum := at_jsnum (slices c3) right\<rparr>\<rparr>
                                in case attr_d LineSlice (path2 c4) of
                                     None \<Rightarrow> Inl (TypeError, c4)
                                   | Some p2 \<Rightarrow> Inr (c4\<lparr>path2 := p2\<rparr>))
                          else Inr (c3\<lparr>path2 := (path2 c3)\<lparr>p_d := EmptyPath\<rparr>\<rparr>)))
         else (case attr_d LineSlice (path c1) of
                 None \<Rightarrow> Inl (TypeError, c1)
               | Some p \<Rightarrow> Inr (c1\<lparr>path := p, path2 := (path2 c1)\<lparr>p_d := EmptyPath\<rparr>\<rparr>)))"

text \<open>
  \<^verbatim>\<open>setRangeWithScaling(range)\<close> of \<^verbatim>\<open>part_000\<close> (lines 396-424): it returns at once
  when the range is the live domain, rebinds the full series (\<^verbatim>\<open>this.props.series\<close>)
  when it turns decimation off, and has no second path.
\<close>

definition setRangeWithScaling_p0 ::
  "sample list \<Rightarrow> real \<times> real \<Rightarrow> channelD3 \<Rightarrow> (error \<times> channelD3) + channelD3" where
  "setRangeWithScaling_p0 series rng c =
     (if domain0 (x_live c) = fst rng \<and> domain1 (x_live c) = snd rng then Inr c
      else
        (let x' = set_domain rng (x_live c);
             c0 = c\<lparr>x_live := x'\<rparr>;
             scale = scale_of x' (plotX c0);
             translate = translate_of x' (plotX c0);
             c1 = (case optimizedSeries c0 of
                     None \<Rightarrow> c0
                   | Some opt \<Rightarrow>
                       (if jsnum_gt scale (real (zoomStep c0)) = needZoomOptimization c0
                        then (let c' = c0\<lparr>needZoomOptimization := \<not> needZoomOptimization c0\<rparr>;
                                  c'' = c'\<lparr>path := (path c')\<lparr>p_datum :=
                                          (if needZoomOptimization c' then Some opt
                                           else Some series)\<rparr>\<rparr>
                              in if needZoomOptimization c''
                                 then c''\<lparr>path := (path c'')\<lparr>p_d := Drawn Line opt\<rparr>\<rparr>
                                 else c''\<lparr>path := (path c'')\<lparr>p_transform := NoTransform\<rparr>\<rparr>)
                        else c0))
         in if needZoomOptimization c1
            then Inr (c1\<lparr>path := (path c1)\<lparr>p_transform := TranslateScale translate scale\<rparr>\<rparr>)
            else (case attr_d LineSlice (path c1) of
                    None \<Rightarrow> Inl (TypeError, c1)
                  | Some p \<Rightarrow> Inr (c1\<lparr>path := p\<rparr>))))"

text \<open>The component as the call leaves it, whether it returned or threw.\<close>

definition state_after :: "(error \<times> channelD3) + channelD3 \<Rightarrow> channelD3" where
  "state_after r = (case r of Inl (e, c) \<Rightarrow> c | Inr c \<Rightarrow> c)"

text \<open>
  The two level-of-detail modes of spec section 4.4: \<^verbatim>\<open>needZoomOptimization\<close> true is
  Overview (the decimated series under a transform), false is Detail. \<open>wanted\<close> is the
  mode the test \<^verbatim>\<open>scale > zoomStep\<close> stands for.
\<close>

datatype lod_mode = Overview | Detail

definition mode :: "channelD3 \<Rightarrow> lod_mode" where
  "mode c = (if needZoomOptimization c then Overview else Detail)"

definition wanted :: "jsnum \<Rightarrow> nat \<Rightarrow> lod_mode" where
  "wanted scale z = (if jsnum_gt scale (real z) then Detail else Overview)"

text \<open>
  The samples a viewport spans: those the \<^verbatim>\<open>defined\<close> test of \<^verbatim>\<open>lineSlice\<close> keeps,
  \<^verbatim>\<open>d[time] >= range[0] && d[time] <= range[1]\<close>.
\<close>

definition defined_in :: "real \<times> real \<Rightarrow> sample \<Rightarrow> bool" where
  "defined_in rng d = (fst rng \<le> fst d \<and> fst d \<le> snd rng)"

definition viewportPoints :: "real \<times> real \<Rightarrow> sample list \<Rightarrow> nat" where
  "viewportPoints rng series = length (filter (defined_in rng) series)"

subsection \<open>A mounted chart used in the examples\<close>

text \<open>
  Eleven samples at times 0 to 10, drawn over 100 pixels with an optimal width of 1 and
  the zoom step 10, so that the series is longer than \<open>1 * 10\<close> and decimation is on.
  \<open>example_mounted\<close> is the component once \<^verbatim>\<open>componentDidMount\<close> has set the
  level-of-detail fields, created both projections over the extent of the times and
  bound the decimated series to the path, before its first \<^verbatim>\<open>setRangeWithScaling\<close>.
\<close>

definition example_series :: "sample list" where
  "example_series =
     [(0, 3), (1, 4), (2, 5), (3, 6), (4, 7), (5, 8), (6, 7), (7, 6), (8, 5), (9, 4), (10, 3)]"

definition example_decimated :: "sample list" where
  "example_decimated =
     [(0, 3), (1, 4), (2, 5), (3, 6), (4, 7), (6, 7), (7, 6), (8, 5), (9, 4), (10, 3)]"

definition example_mounted :: channelD3 where
  "example_mounted =
     \<lparr>zoomStep = 10,
      optimizedSeries = Some example_decimated,
      needZoomOptimization = True,
      slices = [take 6 example_series, drop 5 example_series],
      x_live = \<lparr>domain0 = 0, domain1 = 10, range0 = 0, range1 = 100\<rparr>,
      plotX = \<lparr>domain0 = 0, domain1 = 10, range0 = 0, range1 = 100\<rparr>,
      path = \<lparr>p_datum = Some example_decimated, p_d = Drawn Line example_decimated,
              p_transform = NoTransform\<rparr>,
      path2 = \<lparr>p_datum = None, p_d = EmptyPath, p_transform = NoTransform\<rparr>\<rparr>"

section \<open>Properties of the snap resolver\<close>

subsection \<open>Binary search on a sorted time sequence\<close>

text \<open>
  The loop keeps everything left of \<open>lo\<close> below \<open>v\<close> and everything from \<open>hi\<close> on at
  or above it; on a sorted sequence it ends at the insertion point.
\<close>

lemma bisect_loop_sorted:
  assumes "lo \<le> hi" "hi \<le> length a"
    and "\<forall>j<lo. a ! j < v"
    and "\<forall>j. hi \<le> j \<and> j < length a \<longrightarrow> v \<le> a ! j"
    and "sorted a"
  shows "lo \<le> bisect_loop a v lo hi \<and> bisect_loop a v lo hi \<le> hi
       \<and> (\<forall>j<bisect_loop a v lo hi. a ! j < v)
       \<and> (\<forall>j. bisect_loop a v lo hi \<le> j \<and> j < length a \<longrightarrow> v \<le> a ! j)"
  using assms
proof (induction a v lo hi rule: bisect_loop.induct)
  case (1 a v lo hi)
  show ?case
  proof (cases "lo < hi")
    case False
    with "1.prems" show ?thesis by simp
  next
    case True
    define mid where "mid = (lo + hi) div 2"
    have mid: "lo \<le> mid" "mid < hi" "mid < length a"
      using True "1.prems"(2) by (auto simp: mid_def)
    show ?thesis
    proof (cases "a ! mid < v")
      case lt: True
      have below: "\<forall>j<mid + 1. a ! j < v"
      proof (intro allI impI)
        fix j assume "j < mid + 1"
        then have "j \<le> mid" by simp
        then have "a ! j \<le> a ! mid" using \<open>sorted a\<close> mid(3) by (simp add: sorted_nth_mono)
        then show "a ! j < v" using lt by simp
      qed
      have eq: "bisect_loop a v lo hi = bisect_loop a v (mid + 1) hi"
        using True lt mid by (simp add: mid_def [symmetric] at_index_def js_lt_def Let_def)
      have IH: "mid + 1 \<le> bisect_loop a v (mid + 1) hi \<and> bisect_loop a v (mid + 1) hi \<le> hi
       \<and> (\<forall>j<bisect_loop a v (mid + 1) hi. a ! j < v)
       \<and> (\<forall>j. bisect_loop a v (mid + 1) hi \<le> j \<and> j < length a \<longrightarrow> v \<le> a ! j)"
        using "1.IH"(1) [OF True mid_def] lt mid below "1.prems"
        by (simp add: at_index_def js_lt_def)
      show ?thesis using IH mid unfolding eq by auto
    next
      case ge: False
      have above: "\<forall>j. mid \<le> j \<and> j < length a \<longrightarrow> v \<le> a ! j"
      proof (intro allI impI)
        fix j assume "mid \<le> j \<and> j < length a"
        then have "a ! mid \<le> a ! j" using \<open>sorted a\<close> by (simp add: sorted_nth_mono)
        then show "v \<le> a ! j" using ge by simp
      qed
      have eq: "bisect_loop a v lo hi = bisect_loop a v lo mid"
        using True ge mid by (simp add: mid_def [symmetric] at_index_def js_lt_def Let_def)
      have IH: "lo \<le> bisect_loop a v lo mid \<and> bisect_loop a v lo mid \<le> mid
       \<and> (\<forall>j<bisect_loop a v lo mid. a ! j < v)
       \<and> (\<forall>j. bisect_loop a v lo mid \<le> j \<and> j < length a \<longrightarrow> v \<le> a ! j)"
        using "1.IH"(2) [OF True mid_def] ge mid above "1.prems"
        by (simp add: at_index_def js_lt_def)
      show ?thesis using IH mid unfolding eq by auto
    qed
  qed
qed


lemma bisectLeft_sorted:
  assumes "sorted a"
  shows "bisectLeft a v \<le> length a"
    and "\<forall>j<bisectLeft a v. a ! j < v"
    and "\<forall>j. bisectLeft a v \<le> j \<and> j < length a \<longrightarrow> v \<le> a ! j"
  using bisect_loop_sorted [of 0 "length a" a v] assms
  by (simp_all add: bisectLeft_def)

lemma bisectLeft_mono:
  assumes "sorted a" "v \<le> w"
  shows "bisectLeft a v \<le> bisectLeft a w"
proof (rule ccontr)
  assume "\<not> bisectLeft a v \<le> bisectLeft a w"
  then have lt: "bisectLeft a w < bisectLeft a v" by simp
  then have "a ! bisectLeft a w < v"
    using bisectLeft_sorted(2) [OF assms(1), of v] by simp
  moreover have "bisectLeft a w < length a"
    using lt bisectLeft_sorted(1) [OF assms(1), of v] by simp
  then have "w \<le> a ! bisectLeft a w"
    using bisectLeft_sorted(3) [OF assms(1), of w] by simp
  ultimately show False using assms(2) by simp
qed

lemma bisectLeft_in_range:
  assumes "sorted a" "a \<noteq> []" "v \<le> last a"
  shows "bisectLeft a v < length a"
proof (rule ccontr)
  assume "\<not> bisectLeft a v < length a"
  then have "bisectLeft a v = length a"
    using bisectLeft_sorted(1) [OF assms(1), of v] by simp
  then have "a ! (length a - 1) < v"
    using bisectLeft_sorted(2) [OF assms(1), of v] assms(2) by simp
  then show False using assms(2,3) by (simp add: last_conv_nth)
qed

lemma bisectLeft_below_first:
  assumes "sorted a" "a \<noteq> []" "v \<le> hd a"
  shows "bisectLeft a v = 0"
proof (rule ccontr)
  assume "bisectLeft a v \<noteq> 0"
  then have "a ! 0 < v"
    using bisectLeft_sorted(2) [OF assms(1), of v] by simp
  then show False using assms(2,3) by (simp add: hd_conv_nth)
qed

lemma bisectLeft_above_last:
  assumes "sorted a" "a \<noteq> []" "last a < v"
  shows "bisectLeft a v = length a"
proof (rule ccontr)
  assume "bisectLeft a v \<noteq> length a"
  then have lt: "bisectLeft a v < length a"
    using bisectLeft_sorted(1) [OF assms(1), of v] by simp
  then have "v \<le> a ! bisectLeft a v"
    using bisectLeft_sorted(3) [OF assms(1), of v] by simp
  moreover have "a ! bisectLeft a v \<le> a ! (length a - 1)"
    using lt assms(1) by (intro sorted_nth_mono) auto
  ultimately show False using assms(2,3) by (simp add: last_conv_nth)
qed

text \<open>On a sorted series the comparison of \<open>stick\<close> never holds.\<close>

lemma stick_sorted:
  assumes "sorted tms"
  shows "stick x tms vals px =
           (at_index tms (bisectLeft tms (invert x px)),
            at_index vals (bisectLeft tms (invert x px)))"
proof -
  define v where "v = invert x px"
  define i where "i = bisectLeft tms v"
  have "\<not> js_gt (js_sub (Some v) (at_index tms i)) (js_sub (at_index tms (i + 1)) (Some v))"
  proof (cases "i + 1 < length tms")
    case False
    then show ?thesis by (simp add: js_gt_def js_lt_def js_sub_def at_index_def)
  next
    case True
    then have "v \<le> tms ! i" "v \<le> tms ! (i + 1)"
      using bisectLeft_sorted(3) [OF assms, of v] by (simp_all add: i_def)
    with True show ?thesis by (simp add: js_gt_def js_lt_def js_sub_def at_index_def)
  qed
  then show ?thesis by (simp add: stick_def Let_def v_def i_def)
qed

lemma interpolate_alt: "interpolate a b t = a + (b - a) * t"
  by (simp add: interpolate_def algebra_simps)

lemma invert_mono:
  assumes "range0 p < range1 p" "domain0 p \<le> domain1 p" "a \<le> b"
  shows "invert p a \<le> invert p b"
proof -
  have eq: "\<And>u. invert p u = domain0 p + (domain1 p - domain0 p) * ((u - range0 p) / (range1 p - range0 p))"
    using assms(1) by (simp add: invert_def interpolate_alt normalize_def)
  have "(a - range0 p) / (range1 p - range0 p) \<le> (b - range0 p) / (range1 p - range0 p)"
    using assms(1,3) by (simp add: divide_right_mono)
  then have "(domain1 p - domain0 p) * ((a - range0 p) / (range1 p - range0 p))
      \<le> (domain1 p - domain0 p) * ((b - range0 p) / (range1 p - range0 p))"
    using assms(2) by (intro mult_left_mono) simp_all
  then show ?thesis unfolding eq by linarith
qed

lemma invert_less_iff:
  assumes "range0 p < range1 p" "domain0 p < domain1 p"
  shows "invert p px < t \<longleftrightarrow> px < scale_apply p t"
proof -
  define R where "R = range1 p - range0 p"
  define D where "D = domain1 p - domain0 p"
  have R: "0 < R" and D: "0 < D" using assms by (simp_all add: R_def D_def)
  have i: "invert p px = domain0 p + D * ((px - range0 p) / R)"
    using assms(1) by (simp add: invert_def interpolate_alt normalize_def R_def D_def)
  have s: "scale_apply p t = range0 p + R * ((t - domain0 p) / D)"
    using assms(2) by (simp add: scale_apply_def interpolate_alt normalize_def R_def D_def)
  have "invert p px < t \<longleftrightarrow> D * (px - range0 p) < (t - domain0 p) * R"
    unfolding i using R by (simp add: field_simps)
  also have "\<dots> \<longleftrightarrow> px < scale_apply p t"
    unfolding s using D by (simp add: field_simps)
  finally show ?thesis .
qed

lemma invert_greater_iff:
  assumes "range0 p < range1 p" "domain0 p < domain1 p"
  shows "t < invert p px \<longleftrightarrow> scale_apply p t < px"
proof -
  define R where "R = range1 p - range0 p"
  define D where "D = domain1 p - domain0 p"
  have R: "0 < R" and D: "0 < D" using assms by (simp_all add: R_def D_def)
  have i: "invert p px = domain0 p + D * ((px - range0 p) / R)"
    using assms(1) by (simp add: invert_def interpolate_alt normalize_def R_def D_def)
  have s: "scale_apply p t = range0 p + R * ((t - domain0 p) / D)"
    using assms(2) by (simp add: scale_apply_def interpolate_alt normalize_def R_def D_def)
  have "t < invert p px \<longleftrightarrow> (t - domain0 p) * R < D * (px - range0 p)"
    unfolding i using R by (simp add: field_simps)
  also have "\<dots> \<longleftrightarrow> scale_apply p t < px"
    unfolding s using D by (simp add: field_simps)
  finally show ?thesis .
qed

subsection \<open>Claims about \<open>stick\<close> and \<open>getRegion\<close>\<close>

text \<open>
  C1. The claim: on an ascending series and a pixel inside the plotted width,
  \<open>stick\<close> returns the sample whose time is closest to the inverted pixel, ties going
  to the later sample; the index advances exactly when the right neighbour is strictly
  closer than the left one. The code compares \<^verbatim>\<open>times[i]\<close> and \<^verbatim>\<open>times[i + 1]\<close>, both
  at or after the inverted pixel (the left neighbour is \<^verbatim>\<open>times[i - 1]\<close>), so on a
  sorted series the index never advances (lemma \<open>stick_sorted\<close>) and the sample
  returned is the first one at or after the inverted pixel. Evaluated on the series
  \<open>[0, 10]\<close> drawn over 100 pixels: pixel 10 inverts to time 1, nearest to the sample
  at time 0, and \<open>stick\<close> returns the sample at time 10.
\<close>

theorem stick_misses_nearest_sample:
  "invert \<lparr>domain0 = 0, domain1 = 10, range0 = 0, range1 = 100\<rparr> 10 = 1
   \<and> \<bar>1 - 0\<bar> < \<bar>1 - (10::real)\<bar>
   \<and> bisectLeft [0, 10] 1 = 1
   \<and> stick \<lparr>domain0 = 0, domain1 = 10, range0 = 0, range1 = 100\<rparr> [0, 10] [5, 7] 10
       = (Some 10, Some 7)"
  by (simp add: stick_def invert_def interpolate_def normalize_def bisectLeft_def
      at_index_def js_gt_def js_lt_def js_sub_def)

text \<open>
  C5 as stated fails on the empty series, which is sorted: \<open>stick\<close> finds no sample,
  both bounds are \<^verbatim>\<open>NaN\<close>, and neither \<^verbatim>\<open>start <= end\<close> nor \<^verbatim>\<open>start === end\<close> holds.
\<close>

theorem getRegion_empty_series_counterexample:
  "sorted ([] :: real list)
   \<and> (20 :: real) \<le> 70
   \<and> getRegion \<lparr>domain0 = 0, domain1 = 10, range0 = 0, range1 = 100\<rparr> [] [] (20, 70) False
       = \<lparr>b_start = None, b_end = None\<rparr>
   \<and> \<not> js_le
        (b_start (getRegion \<lparr>domain0 = 0, domain1 = 10, range0 = 0, range1 = 100\<rparr> [] []
           (20, 70) False))
        (b_end (getRegion \<lparr>domain0 = 0, domain1 = 10, range0 = 0, range1 = 100\<rparr> [] []
           (20, 70) False))
   \<and> getRegion \<lparr>domain0 = 0, domain1 = 10, range0 = 0, range1 = 100\<rparr> [] [] (20, 70) True
       = \<lparr>b_start = None, b_end = None\<rparr>
   \<and> \<not> js_seq
        (b_start (getRegion \<lparr>domain0 = 0, domain1 = 10, range0 = 0, range1 = 100\<rparr> [] []
           (20, 70) True))
        (b_end (getRegion \<lparr>domain0 = 0, domain1 = 10, range0 = 0, range1 = 100\<rparr> [] []
           (20, 70) True))"
  by (simp add: getRegion_def Let_def stick_def bisectLeft_def at_index_def js_gt_def
      js_lt_def js_sub_def js_le_def js_seq_def)

text \<open>
  C5, amended. Every pair that \<open>getRegion\<close> makes of a brush selection \<open>(a, b)\<close> with
  \<open>a \<le> b\<close> satisfies the region invariant (with the instant flag start and end are
  the same time, without it start is at most end) when the series is ascending and
  not empty and the selection lies on the plotted series: the projection is
  increasing, \<open>b\<close> is inside its pixel range (\<open>b \<le> range1 x\<close>) and the viewport ends
  inside the extent of the series (\<open>domain1 x \<le> last tms\<close>, spec section 3).
\<close>

theorem getRegion_start_le_end:
  assumes "sorted tms" and "tms \<noteq> []"
    and "range0 x < range1 x" and "domain0 x \<le> domain1 x" and "domain1 x \<le> last tms"
    and "a \<le> b" and "b \<le> range1 x"
  shows "(\<exists>s. getRegion x tms vals (a, b) True = \<lparr>b_start = Some s, b_end = Some s\<rparr>)
       \<and> (\<exists>s e. getRegion x tms vals (a, b) False = \<lparr>b_start = Some s, b_end = Some e\<rparr>
                \<and> s \<le> e)
       \<and> js_seq (b_start (getRegion x tms vals (a, b) True))
                  (b_end (getRegion x tms vals (a, b) True))
       \<and> js_le (b_start (getRegion x tms vals (a, b) False))
                 (b_end (getRegion x tms vals (a, b) False))"
proof -
  define i where "i = bisectLeft tms (invert x a)"
  define j where "j = bisectLeft tms (invert x b)"
  have ab: "invert x a \<le> invert x b"
    using assms(3,4,6) by (rule invert_mono)
  have "invert x b \<le> invert x (range1 x)"
    using assms(3,4,7) by (rule invert_mono)
  also have "invert x (range1 x) = domain1 x"
    using assms(3) by (simp add: invert_def interpolate_def normalize_def)
  finally have b: "invert x b \<le> last tms"
    using assms(5) by simp
  have ij: "i \<le> j"
    unfolding i_def j_def using assms(1) ab by (rule bisectLeft_mono)
  have j: "j < length tms"
    unfolding j_def using assms(1,2) b by (rule bisectLeft_in_range)
  have i: "i < length tms" using ij j by simp
  have le: "tms ! i \<le> tms ! j"
    using assms(1) ij j by (rule sorted_nth_mono)
  have sa: "fst (stick x tms vals a) = Some (tms ! i)"
    using i by (simp add: stick_sorted [OF assms(1)] i_def at_index_def)
  have sb: "fst (stick x tms vals b) = Some (tms ! j)"
    using j by (simp add: stick_sorted [OF assms(1)] j_def at_index_def)
  show ?thesis
    using le by (simp add: getRegion_def Let_def sa sb js_seq_def js_eq_def js_le_def)
qed

text \<open>The hypotheses of C5 amended hold on a three-sample series, with the bounds found.\<close>

theorem getRegion_start_le_end_witness:
  "sorted [0, 5, 10 :: real]
   \<and> domain1 \<lparr>domain0 = 0, domain1 = 10, range0 = 0, range1 = 100\<rparr> \<le> last [0, 5, 10]
   \<and> (20 :: real) \<le> 70
   \<and> 70 \<le> range1 \<lparr>domain0 = 0, domain1 = 10, range0 = 0, range1 = 100\<rparr>
   \<and> getRegion \<lparr>domain0 = 0, domain1 = 10, range0 = 0, range1 = 100\<rparr> [0, 5, 10] [1, 2, 3]
        (20, 70) False = \<lparr>b_start = Some 5, b_end = Some 10\<rparr>
   \<and> getRegion \<lparr>domain0 = 0, domain1 = 10, range0 = 0, range1 = 100\<rparr> [0, 5, 10] [1, 2, 3]
        (20, 70) True = \<lparr>b_start = Some 5, b_end = Some 5\<rparr>
   \<and> (\<exists>s e. getRegion \<lparr>domain0 = 0, domain1 = 10, range0 = 0, range1 = 100\<rparr> [0, 5, 10]
               [1, 2, 3] (20, 70) False = \<lparr>b_start = Some s, b_end = Some e\<rparr> \<and> s \<le> e)"
  using getRegion_start_le_end [of "[0, 5, 10]"
      "\<lparr>domain0 = 0, domain1 = 10, range0 = 0, range1 = 100\<rparr>" 20 70 "[1, 2, 3]"]
  by (simp add: getRegion_def Let_def stick_def invert_def interpolate_def normalize_def
      bisectLeft_def at_index_def js_gt_def js_lt_def js_sub_def)

text \<open>
  C7. The claim: for a pixel outside the plotted pixel range \<open>stick\<close> returns the
  nearest boundary sample, the first one on the left and the last one on the right.
  On the left the code does. On the right the insertion point is the length \<open>N\<close> of
  the series and the test reads \<^verbatim>\<open>times[N]\<close> and \<^verbatim>\<open>times[N + 1]\<close>, never the last
  sample \<^verbatim>\<open>times[N - 1]\<close>: the same neighbour test as in C1, one position too far to
  the right. The code returns \<^verbatim>\<open>[undefined, undefined]\<close>. Evaluated on the series
  \<open>[0, 10]\<close> drawn over 100 pixels, at pixels 110 and -10.
\<close>

theorem stick_right_of_range_undefined:
  "scale_apply \<lparr>domain0 = 0, domain1 = 10, range0 = 0, range1 = 100\<rparr> (last [0, 10]) < 110
   \<and> bisectLeft [0, 10] (invert \<lparr>domain0 = 0, domain1 = 10, range0 = 0, range1 = 100\<rparr> 110)
       = 2
   \<and> stick \<lparr>domain0 = 0, domain1 = 10, range0 = 0, range1 = 100\<rparr> [0, 10] [5, 7] 110
       = (None, None)
   \<and> stick \<lparr>domain0 = 0, domain1 = 10, range0 = 0, range1 = 100\<rparr> [0, 10] [5, 7] 110
       \<noteq> (Some (last [0, 10]), Some (last [5, 7]))
   \<and> stick \<lparr>domain0 = 0, domain1 = 10, range0 = 0, range1 = 100\<rparr> [0, 10] [5, 7] (- 10)
       = (Some 0, Some 5)"
  by (simp add: stick_def invert_def scale_apply_def interpolate_def normalize_def
      bisectLeft_def at_index_def js_gt_def js_lt_def js_sub_def)

text \<open>
  The same on every non-empty ascending series under an increasing projection: left
  of the first sample's pixel the first sample, right of the last sample's pixel
  nothing.
\<close>

lemma stick_outside_range:
  assumes "sorted tms" and "tms \<noteq> []" and "length vals = length tms"
    and "range0 x < range1 x" and "domain0 x < domain1 x"
  shows "(px < scale_apply x (hd tms) \<longrightarrow>
            stick x tms vals px = (Some (hd tms), Some (hd vals)))
       \<and> (scale_apply x (last tms) < px \<longrightarrow> stick x tms vals px = (None, None))"
proof (intro conjI impI)
  assume "px < scale_apply x (hd tms)"
  then have "invert x px < hd tms"
    using invert_less_iff [OF assms(4,5)] by simp
  then have "bisectLeft tms (invert x px) = 0"
    using bisectLeft_below_first [OF assms(1,2)] by simp
  moreover have "vals \<noteq> []" using assms(2,3) by auto
  ultimately show "stick x tms vals px = (Some (hd tms), Some (hd vals))"
    using assms(2,3) by (simp add: stick_sorted [OF assms(1)] at_index_def hd_conv_nth)
next
  assume "scale_apply x (last tms) < px"
  then have "last tms < invert x px"
    using invert_greater_iff [OF assms(4,5)] by simp
  then have "bisectLeft tms (invert x px) = length tms"
    using bisectLeft_above_last [OF assms(1,2)] by simp
  then show "stick x tms vals px = (None, None)"
    using assms(3) by (simp add: stick_sorted [OF assms(1)] at_index_def)
qed

text \<open>
  C10. The two implementations agree on the selection math: \<open>stick\<close> and \<open>getRegion\<close>
  of \<^verbatim>\<open>Channel.js\<close> and of \<^verbatim>\<open>part_000\<close> return the same result for every pixel,
  selection and instant flag over the same series and projection.
\<close>

theorem stick_getRegion_versions_agree:
  "stick_p0 x tms vals px = stick x tms vals px
   \<and> getRegion_p0 x tms vals sel isInstant = getRegion x tms vals sel isInstant"
  by (simp add: stick_p0_def stick_def getRegion_p0_def getRegion_def)

section \<open>Properties of the brush handlers\<close>

lemma findIndex_from_found:
  "findIndex_from p ys k = r \<Longrightarrow> 0 \<le> k \<Longrightarrow> 0 \<le> r \<Longrightarrow>
     k \<le> r \<and> r < k + int (length ys) \<and> p (ys ! nat (r - k))"
proof (induction ys arbitrary: k)
  case Nil
  then show ?case by simp
next
  case (Cons y ys)
  show ?case
  proof (cases "p y")
    case True
    with Cons.prems show ?thesis by simp
  next
    case False
    then have "findIndex_from p ys (k + 1) = r" using Cons.prems(1) by simp
    then have IH: "k + 1 \<le> r \<and> r < k + 1 + int (length ys) \<and> p (ys ! nat (r - (k + 1)))"
      using Cons.IH [of "k + 1"] Cons.prems(2,3) by simp
    then have "nat (r - k) = Suc (nat (r - (k + 1)))" by linarith
    with IH show ?thesis by simp
  qed
qed

lemma findIndex_found:
  assumes "findIndex p ys = int i"
  shows "i < length ys" and "p (ys ! i)"
  using findIndex_from_found [of p ys 0 "int i"] assms
  by (simp_all add: findIndex_def)

lemma brushend_defers:
  "(case brushend x tms vals ranges ident ev s of
      Inl (e, s') \<Rightarrow> calls s' = calls s \<and> queue s' = queue s
    | Inr s' \<Rightarrow> calls s' = calls s \<and> (\<exists>new. queue s' = queue s @ new))"
  by (simp add: brushend_def clearD3Event_def Let_def split: option.splits)

lemma brushCreator_end_defers:
  "calls (brushCreator_end x tms vals activeStates ev s) = calls s
   \<and> (\<exists>new. queue (brushCreator_end x tms vals activeStates ev s) = queue s @ new)"
  by (simp add: brushCreator_end_def clearD3Event_def Let_def split: option.splits)

lemma tick_runs_scheduled:
  "calls (clearD3Event f s) = calls s
   \<and> calls (tick later (clearD3Event f (s\<lparr>queue := []\<rparr>))) = calls s @ run_task later f"
  by (simp add: clearD3Event_def tick_def)

text \<open>
  C3. At the end of a brush drag on an existing region (an input event, a selection, the
  region found at index \<open>i\<close>): if the bounds that \<open>getRegion\<close> makes of the selection
  equal the region's start and end, the handler schedules one closure that calls
  \<^verbatim>\<open>unselectAll\<close>, selects this region and requests a view update, after which exactly
  this region is selected, and no \<^verbatim>\<open>regionChanged\<close> is called; otherwise it schedules
  one closure whose only call is \<^verbatim>\<open>regionChanged\<close> with the new bounds and the index
  \<open>i\<close>, so that the handler makes no select call.
\<close>

theorem brushend_click_or_move:
  fixes ranges :: "region list" and i :: nat and x :: projection
    and tms vals :: "real list" and sel :: "real \<times> real"
  defines "r \<equiv> ranges ! i"
  defines "moved \<equiv> getRegion x tms vals sel (r_instant (ranges ! i))"
  assumes "sourceEvent ev = Some mx" and "selection ev = Some sel"
    and "findIndex (\<lambda>rg. r_id rg = ident) ranges = int i"
  shows "(js_eq (b_start moved) (r_start r) \<and> js_eq (b_end moved) (r_end r) \<longrightarrow>
            brushend x tms vals ranges ident ev s = Inr (s\<lparr>queue := queue s @ [ClickTask i]\<rparr>)
            \<and> run_task later (ClickTask i) = [UnselectAll, SelectRegion i, UpdateView]
            \<and> (\<forall>j<length ranges.
                  r_selected (store_calls (run_task later (ClickTask i)) ranges ! j) = (j = i)))
       \<and> (\<not> (js_eq (b_start moved) (r_start r) \<and> js_eq (b_end moved) (r_end r)) \<longrightarrow>
            brushend x tms vals ranges ident ev s
              = Inr (s\<lparr>queue := queue s @ [MoveTask moved i]\<rparr>)
            \<and> run_task later (MoveTask moved i) = [RegionChanged moved i])"
proof -
  have i: "i < length ranges"
    using assms(5) by (rule findIndex_found(1))
  have at: "at_int ranges (int i) = Some (ranges ! i)"
    using i by (simp add: at_int_def at_index_def)
  have sel: "\<forall>j<length ranges.
      r_selected (store_calls (run_task later (ClickTask i)) ranges ! j) = (j = i)"
    using i by (simp add: nth_list_update)
  show ?thesis
    using sel by (simp add: brushend_def assms(3,4,5) at Let_def clearD3Event_def r_def moved_def)
qed

text \<open>
  C3 on two regions: a drag that ends on the bounds of region \<open>b\<close> selects it and
  unselects \<open>a\<close>; a drag that ends elsewhere forwards the new bounds for index 1.
\<close>

theorem brushend_click_or_move_witness:
  "brushend \<lparr>domain0 = 0, domain1 = 10, range0 = 0, range1 = 100\<rparr> [0, 5, 10] [1, 2, 3]
      [\<lparr>r_id = ''a'', r_start = 0, r_end = 5, r_instant = False, r_selected = True,
         r_highlighted = False\<rparr>,
       \<lparr>r_id = ''b'', r_start = 5, r_end = 10, r_instant = False, r_selected = False,
         r_highlighted = False\<rparr>]
      ''b'' \<lparr>sourceEvent = Some 50, selection = Some (50, 100)\<rparr>
      \<lparr>queue = [], calls = [], console = []\<rparr>
     = Inr \<lparr>queue = [ClickTask 1], calls = [], console = []\<rparr>
   \<and> map r_selected (store_calls (run_task [] (ClickTask 1))
      [\<lparr>r_id = ''a'', r_start = 0, r_end = 5, r_instant = False, r_selected = True,
         r_highlighted = False\<rparr>,
       \<lparr>r_id = ''b'', r_start = 5, r_end = 10, r_instant = False, r_selected = False,
         r_highlighted = False\<rparr>]) = [False, True]
   \<and> brushend \<lparr>domain0 = 0, domain1 = 10, range0 = 0, range1 = 100\<rparr> [0, 5, 10] [1, 2, 3]
      [\<lparr>r_id = ''a'', r_start = 0, r_end = 5, r_instant = False, r_selected = True,
         r_highlighted = False\<rparr>,
       \<lparr>r_id = ''b'', r_start = 5, r_end = 10, r_instant = False, r_selected = False,
         r_highlighted = False\<rparr>]
      ''b'' \<lparr>sourceEvent = Some 60, selection = Some (60, 100)\<rparr>
      \<lparr>queue = [], calls = [], console = []\<rparr>
     = Inr \<lparr>queue = [MoveTask \<lparr>b_start = Some 10, b_end = Some 10\<rparr> 1], calls = [],
            console = []\<rparr>"
proof -
  let ?P = "\<lparr>domain0 = 0, domain1 = 10, range0 = 0, range1 = 100\<rparr>"
  let ?rs = "[\<lparr>r_id = ''a'', r_start = 0, r_end = 5, r_instant = False, r_selected = True,
         r_highlighted = False\<rparr>,
       \<lparr>r_id = ''b'', r_start = 5, r_end = 10, r_instant = False, r_selected = False,
         r_highlighted = False\<rparr>]"
  let ?s0 = "\<lparr>queue = [], calls = [], console = []\<rparr>"
  have found: "findIndex (\<lambda>rg. r_id rg = ''b'') ?rs = int 1"
    by (simp add: findIndex_def)
  have click: "getRegion ?P [0, 5, 10] [1, 2, 3] (50, 100) False
      = \<lparr>b_start = Some 5, b_end = Some 10\<rparr>"
    by (simp add: getRegion_def Let_def stick_def invert_def interpolate_def normalize_def
        bisectLeft_def at_index_def js_gt_def js_lt_def js_sub_def)
  have move: "getRegion ?P [0, 5, 10] [1, 2, 3] (60, 100) False
      = \<lparr>b_start = Some 10, b_end = Some 10\<rparr>"
    by (simp add: getRegion_def Let_def stick_def invert_def interpolate_def normalize_def
        bisectLeft_def at_index_def js_gt_def js_lt_def js_sub_def)
  have a: "brushend ?P [0, 5, 10] [1, 2, 3] ?rs ''b''
      \<lparr>sourceEvent = Some 50, selection = Some (50, 100)\<rparr> ?s0
     = Inr \<lparr>queue = [ClickTask 1], calls = [], console = []\<rparr>"
    using brushend_click_or_move [of "\<lparr>sourceEvent = Some 50, selection = Some (50, 100)\<rparr>"
        50 "(50, 100)" "''b''" ?rs 1 ?P "[0, 5, 10]" "[1, 2, 3]" ?s0 "[]", OF _ _ found]
    by (simp add: click js_eq_def)
  have b: "brushend ?P [0, 5, 10] [1, 2, 3] ?rs ''b''
      \<lparr>sourceEvent = Some 60, selection = Some (60, 100)\<rparr> ?s0
     = Inr \<lparr>queue = [MoveTask \<lparr>b_start = Some 10, b_end = Some 10\<rparr> 1], calls = [],
            console = []\<rparr>"
    using brushend_click_or_move [of "\<lparr>sourceEvent = Some 60, selection = Some (60, 100)\<rparr>"
        60 "(60, 100)" "''b''" ?rs 1 ?P "[0, 5, 10]" "[1, 2, 3]" ?s0 "[]", OF _ _ found]
    by (simp add: move js_eq_def)
  have c: "map r_selected (store_calls (run_task [] (ClickTask 1)) ?rs) = [False, True]"
    by simp
  show ?thesis using a b c by simp
qed

text \<open>
  C6. The claim: when the region id of an end-of-drag callback is no longer in the
  region list, the error is reported and the gesture ends as a no-op without throwing.
  The code reports it with \<^verbatim>\<open>console.error\<close> and goes on: \<^verbatim>\<open>ranges[-1]\<close> is
  \<^verbatim>\<open>undefined\<close> and reading its \<^verbatim>\<open>instant\<close> throws a \<^verbatim>\<open>TypeError\<close>. Evaluated on a
  list that holds only region \<open>a\<close>, for the id \<open>b\<close>.
\<close>

theorem brushend_missing_region_throws:
  "brushend x tms vals
      [\<lparr>r_id = ''a'', r_start = 0, r_end = 5, r_instant = False, r_selected = False,
         r_highlighted = False\<rparr>]
      ''b'' \<lparr>sourceEvent = Some 50, selection = Some (50, 100)\<rparr>
      \<lparr>queue = [], calls = [], console = []\<rparr>
     = Inl (TypeError, \<lparr>queue = [], calls = [], console = [''REGION b was not found'']\<rparr>)"
  by (simp add: brushend_def findIndex_def at_int_def)

text \<open>
  C8. Neither end-of-drag handler makes an outward call itself: when \<open>brushend\<close> or
  the creation brush's handler returns (or throws), the calls made so far are
  unchanged and the timer queue has only grown at its end; a closure given to
  \<^verbatim>\<open>clearD3Event\<close> makes its calls when the timer queue runs it.
\<close>

theorem handlers_defer_every_call:
  "(case brushend x tms vals ranges ident ev s of
      Inl (e, s') \<Rightarrow> calls s' = calls s \<and> queue s' = queue s
    | Inr s' \<Rightarrow> calls s' = calls s \<and> (\<exists>new. queue s' = queue s @ new))
   \<and> (calls (brushCreator_end x tms vals activeStates ev s) = calls s
      \<and> (\<exists>new. queue (brushCreator_end x tms vals activeStates ev s) = queue s @ new))
   \<and> (calls (clearD3Event f s) = calls s
      \<and> calls (tick later (clearD3Event f (s\<lparr>queue := []\<rparr>))) = calls s @ run_task later f)"
  using brushend_defers brushCreator_end_defers tick_runs_scheduled by (intro conjI) blast+

text \<open>
  C9. With an input event: a click (no selection) with an active label schedules one
  \<^verbatim>\<open>regionChanged\<close> for the region at the pointer, a drag (a selection) with an active
  label schedules the clearing of the brush and then one \<^verbatim>\<open>regionChanged\<close> for the
  selection; the index of that call is the length of the region list when the closure
  runs. With no active label nothing is forwarded: the queue gets nothing, or only
  the clearing of the brush. No call is made by the handler itself.
\<close>

theorem brushCreator_end_forwards_append:
  assumes "sourceEvent ev = Some mx"
  shows "(statesSelected activeStates \<and> selection ev = None \<longrightarrow>
            queue (brushCreator_end x tms vals activeStates ev s)
              = queue s @ [CreateTask (getRegion x tms vals (mx, mx) False)])
       \<and> (\<forall>sel. statesSelected activeStates \<and> selection ev = Some sel \<longrightarrow>
            queue (brushCreator_end x tms vals activeStates ev s)
              = queue s @ [ClearTask, CreateTask (getRegion x tms vals sel False)])
       \<and> run_task later (CreateTask reg) = [RegionChanged reg (length later)]
       \<and> (\<not> statesSelected activeStates \<longrightarrow>
            queue (brushCreator_end x tms vals activeStates ev s)
              = queue s @ (if selection ev = None then [] else [ClearTask])
            \<and> drain later (if selection ev = None then [] else [ClearTask])
              = (if selection ev = None then [] else [BrushMoveNull]))
       \<and> calls (brushCreator_end x tms vals activeStates ev s) = calls s"
  using assms
  by (auto simp: brushCreator_end_def clearD3Event_def Let_def split: option.splits)

text \<open>
  C9 on a click and a drag with the label \<open>Walk\<close> active, run with two regions in the
  list, and on a drag with no label.
\<close>

theorem brushCreator_end_forwards_append_witness:
  "queue (brushCreator_end \<lparr>domain0 = 0, domain1 = 10, range0 = 0, range1 = 100\<rparr> [0, 5, 10]
      [1, 2, 3] (Some [''Walk'']) \<lparr>sourceEvent = Some 40, selection = None\<rparr>
      \<lparr>queue = [], calls = [], console = []\<rparr>)
     = [CreateTask \<lparr>b_start = Some 5, b_end = Some 5\<rparr>]
   \<and> queue (brushCreator_end \<lparr>domain0 = 0, domain1 = 10, range0 = 0, range1 = 100\<rparr> [0, 5, 10]
      [1, 2, 3] (Some [''Walk'']) \<lparr>sourceEvent = Some 40, selection = Some (40, 90)\<rparr>
      \<lparr>queue = [], calls = [], console = []\<rparr>)
     = [ClearTask, CreateTask \<lparr>b_start = Some 5, b_end = Some 10\<rparr>]
   \<and> drain
      [\<lparr>r_id = ''a'', r_start = 0, r_end = 5, r_instant = False, r_selected = True,
         r_highlighted = False\<rparr>,
       \<lparr>r_id = ''b'', r_start = 5, r_end = 10, r_instant = False, r_selected = False,
         r_highlighted = False\<rparr>]
      [ClearTask, CreateTask \<lparr>b_start = Some 5, b_end = Some 10\<rparr>]
     = [BrushMoveNull, RegionChanged \<lparr>b_start = Some 5, b_end = Some 10\<rparr> 2]
   \<and> queue (brushCreator_end \<lparr>domain0 = 0, domain1 = 10, range0 = 0, range1 = 100\<rparr> [0, 5, 10]
      [1, 2, 3] (Some ([] :: string list)) \<lparr>sourceEvent = Some 40, selection = Some (40, 90)\<rparr>
      \<lparr>queue = [], calls = [], console = []\<rparr>)
     = [ClearTask]"
proof -
  let ?P = "\<lparr>domain0 = 0, domain1 = 10, range0 = 0, range1 = 100\<rparr>"
  let ?s0 = "\<lparr>queue = [], calls = [], console = []\<rparr>"
  have click: "getRegion ?P [0, 5, 10] [1, 2, 3] (40, 40) False
      = \<lparr>b_start = Some 5, b_end = Some 5\<rparr>"
    by (simp add: getRegion_def Let_def stick_def invert_def interpolate_def normalize_def
        bisectLeft_def at_index_def js_gt_def js_lt_def js_sub_def)
  have drag: "getRegion ?P [0, 5, 10] [1, 2, 3] (40, 90) False
      = \<lparr>b_start = Some 5, b_end = Some 10\<rparr>"
    by (simp add: getRegion_def Let_def stick_def invert_def interpolate_def normalize_def
        bisectLeft_def at_index_def js_gt_def js_lt_def js_sub_def)
  have a: "queue (brushCreator_end ?P [0, 5, 10] [1, 2, 3] (Some [''Walk''])
      \<lparr>sourceEvent = Some 40, selection = None\<rparr> ?s0)
     = [CreateTask \<lparr>b_start = Some 5, b_end = Some 5\<rparr>]"
    using brushCreator_end_forwards_append [of "\<lparr>sourceEvent = Some 40, selection = None\<rparr>" 40
        "Some [''Walk'']" ?P "[0, 5, 10]" "[1, 2, 3]" ?s0]
    by (simp add: statesSelected_def click)
  have b: "queue (brushCreator_end ?P [0, 5, 10] [1, 2, 3] (Some [''Walk''])
      \<lparr>sourceEvent = Some 40, selection = Some (40, 90)\<rparr> ?s0)
     = [ClearTask, CreateTask \<lparr>b_start = Some 5, b_end = Some 10\<rparr>]"
    using brushCreator_end_forwards_append
        [of "\<lparr>sourceEvent = Some 40, selection = Some (40, 90)\<rparr>" 40
        "Some [''Walk'']" ?P "[0, 5, 10]" "[1, 2, 3]" ?s0]
    by (simp add: statesSelected_def drag)
  have c: "queue (brushCreator_end ?P [0, 5, 10] [1, 2, 3] (Some ([] :: string list))
      \<lparr>sourceEvent = Some 40, selection = Some (40, 90)\<rparr> ?s0)
     = [ClearTask]"
    using brushCreator_end_forwards_append
        [of "\<lparr>sourceEvent = Some 40, selection = Some (40, 90)\<rparr>" 40
        "Some ([] :: string list)" ?P "[0, 5, 10]" "[1, 2, 3]" ?s0]
    by (simp add: statesSelected_def)
  show ?thesis using a b c by simp
qed

section \<open>Properties of the level of detail\<close>

text \<open>
  C4. The decision to decimate is \<open>n > w * z\<close> for the series length \<open>n\<close>, the
  optimal width \<open>w\<close> and the zoom step \<open>z\<close>: the flag is set to it, a decimated
  series exists afterwards exactly when it holds (none existing before), and an empty
  series never enables decimation.
\<close>

theorem decimation_decision:
  "needZoomOptimization (componentDidMount sparseValues w series (c\<lparr>zoomStep := z\<rparr>))
     = (length series > w * z)
   \<and> (optimizedSeries (componentDidMount sparseValues w series
         (c\<lparr>zoomStep := z, optimizedSeries := None\<rparr>)) \<noteq> None)
     = (length series > w * z)
   \<and> needZoomOptimization (componentDidMount sparseValues w [] c) = False
   \<and> optimizedSeries (componentDidMount sparseValues w [] c) = optimizedSeries c"
  by (simp add: componentDidMount_def Let_def)

lemma mode_Detail_iff: "(mode c = Detail) = (\<not> needZoomOptimization c)"
  by (simp add: mode_def)

lemma need_after:
  "optimizedSeries c \<noteq> None \<Longrightarrow>
   needZoomOptimization (state_after (setRangeWithScaling rng c))
     = (\<not> jsnum_gt (scale_of (set_domain rng (x_live c)) (plotX c)) (real (zoomStep c)))"
  by (auto simp: setRangeWithScaling_def state_after_def attr_d_def Let_def
      split: option.splits)

lemma need_after_p0:
  "optimizedSeries c \<noteq> None \<Longrightarrow>
   \<not> (domain0 (x_live c) = fst rng \<and> domain1 (x_live c) = snd rng) \<Longrightarrow>
   needZoomOptimization (state_after (setRangeWithScaling_p0 series rng c))
     = (\<not> jsnum_gt (scale_of (set_domain rng (x_live c)) (plotX c)) (real (zoomStep c)))"
  by (auto simp: setRangeWithScaling_p0_def state_after_def attr_d_def Let_def
      split: option.splits)

lemma detail_drawn:
  assumes "optimizedSeries c \<noteq> None" "needZoomOptimization c"
    and "jsnum_gt (scale_of (set_domain rng (x_live c)) (plotX c)) (real (zoomStep c))"
    and "at_jsnum (slices c) (left_of (zoomStep c) (set_domain rng (x_live c)) (plotX c))
          = Some sl"
    and "\<not> jsnum_neq (left_of (zoomStep c) (set_domain rng (x_live c)) (plotX c))
                      (right_of (zoomStep c) (set_domain rng (x_live c)) (plotX c))
         \<or> at_jsnum (slices c) (right_of (zoomStep c) (set_domain rng (x_live c)) (plotX c))
             \<noteq> None"
  shows "\<exists>c'. setRangeWithScaling rng c = Inr c'
           \<and> \<not> needZoomOptimization c'
           \<and> p_transform (path c') = NoTransform
           \<and> p_datum (path c') = Some sl
           \<and> p_d (path c') = Drawn LineSlice sl"
  using assms
  by (auto simp: setRangeWithScaling_def attr_d_def Let_def split: option.splits)

lemma detail_throws:
  assumes "optimizedSeries c \<noteq> None" "needZoomOptimization c"
    and "jsnum_gt (scale_of (set_domain rng (x_live c)) (plotX c)) (real (zoomStep c))"
    and "at_jsnum (slices c) (left_of (zoomStep c) (set_domain rng (x_live c)) (plotX c))
          = None
         \<or> (jsnum_neq (left_of (zoomStep c) (set_domain rng (x_live c)) (plotX c))
                      (right_of (zoomStep c) (set_domain rng (x_live c)) (plotX c))
            \<and> at_jsnum (slices c) (right_of (zoomStep c) (set_domain rng (x_live c)) (plotX c))
                = None)"
  shows "\<exists>c'. setRangeWithScaling rng c = Inl (TypeError, c')
           \<and> \<not> needZoomOptimization c'
           \<and> p_transform (path c') = NoTransform"
  using assms
  by (auto simp: setRangeWithScaling_def attr_d_def Let_def split: option.splits)

lemma detail_drawn_p0:
  assumes "optimizedSeries c \<noteq> None" "needZoomOptimization c"
    and "\<not> (domain0 (x_live c) = fst rng \<and> domain1 (x_live c) = snd rng)"
    and "jsnum_gt (scale_of (set_domain rng (x_live c)) (plotX c)) (real (zoomStep c))"
  shows "\<exists>c'. setRangeWithScaling_p0 series rng c = Inr c'
           \<and> \<not> needZoomOptimization c'
           \<and> p_transform (path c') = NoTransform
           \<and> p_datum (path c') = Some series
           \<and> p_d (path c') = Drawn LineSlice series"
  using assms
  by (auto simp: setRangeWithScaling_p0_def attr_d_def Let_def split: option.splits)

text \<open>
  C2 as stated fails in its second half: the flip is decided by \<^verbatim>\<open>scale > zoomStep\<close>,
  not by a count of points. The mounted example is in Overview; the viewport
  \<open>(0, 5)\<close> spans six samples, fewer than \<open>1 * 10\<close>, the scale is 2, and the
  controller returns in Overview with the decimated series under a transform.
\<close>

theorem few_points_stay_overview_counterexample:
  "length example_series > 1 * zoomStep example_mounted
   \<and> optimizedSeries example_mounted \<noteq> None
   \<and> mode example_mounted = Overview
   \<and> viewportPoints (0, 5) example_series < 1 * zoomStep example_mounted
   \<and> scale_of (set_domain (0, 5) (x_live example_mounted)) (plotX example_mounted) = Num 2
   \<and> \<not> isl (setRangeWithScaling (0, 5) example_mounted)
   \<and> mode (state_after (setRangeWithScaling (0, 5) example_mounted)) = Overview
   \<and> p_transform (path (state_after (setRangeWithScaling (0, 5) example_mounted)))
       = TranslateScale 0 (Num 2)
   \<and> p_datum (path (state_after (setRangeWithScaling (0, 5) example_mounted)))
       = optimizedSeries example_mounted
   \<and> \<not> isl (setRangeWithScaling_p0 example_series (0, 5) example_mounted)
   \<and> mode (state_after (setRangeWithScaling_p0 example_series (0, 5) example_mounted))
       = Overview"
  by (simp add: example_mounted_def example_series_def viewportPoints_def defined_in_def
      mode_def setRangeWithScaling_def setRangeWithScaling_p0_def state_after_def Let_def
      set_domain_def scale_of_def translate_of_def left_of_def right_of_def all_of_def
      scale_apply_def interpolate_def normalize_def js_div_def)

text \<open>
  C2, amended. While a decimated series is available, a range change flips the mode
  exactly when the mode that the test \<^verbatim>\<open>scale > zoomStep\<close> stands for (Detail when it
  holds, Overview when not) differs from the current mode. From Overview, a range
  with \<^verbatim>\<open>scale > zoomStep\<close> puts the controller in Detail and clears the transform of
  the path; in \<^verbatim>\<open>Channel.js\<close>, when the bucket \<^verbatim>\<open>slices[left]\<close> exists (and
  \<^verbatim>\<open>slices[right]\<close> too where \<^verbatim>\<open>right\<close> differs from \<^verbatim>\<open>left\<close>), the call returns with
  that bucket bound to the path and drawn with the slice generator; in \<^verbatim>\<open>part_000\<close>
  (where a range equal to the live domain is no change) the full series is bound and
  drawn with the slice generator. The theorem also records what \<^verbatim>\<open>Channel.js\<close> does
  when one of the buckets does not exist: the draw throws a \<^verbatim>\<open>TypeError\<close>, the mode
  being Detail already.
\<close>

theorem setRangeWithScaling_mode:
  fixes c :: channelD3 and rng :: "real \<times> real" and series :: "sample list"
  defines "sc \<equiv> scale_of (set_domain rng (x_live c)) (plotX c)"
  defines "lf \<equiv> left_of (zoomStep c) (set_domain rng (x_live c)) (plotX c)"
  defines "rt \<equiv> right_of (zoomStep c) (set_domain rng (x_live c)) (plotX c)"
  assumes "optimizedSeries c \<noteq> None"
  shows "((mode (state_after (setRangeWithScaling rng c)) \<noteq> mode c)
           = (wanted sc (zoomStep c) \<noteq> mode c))
       \<and> (mode c = Overview \<and> jsnum_gt sc (real (zoomStep c)) \<longrightarrow>
            (\<forall>sl. at_jsnum (slices c) lf = Some sl
                   \<and> (\<not> jsnum_neq lf rt \<or> at_jsnum (slices c) rt \<noteq> None) \<longrightarrow>
               (\<exists>c'. setRangeWithScaling rng c = Inr c'
                  \<and> mode c' = Detail
                  \<and> p_transform (path c') = NoTransform
                  \<and> p_datum (path c') = Some sl
                  \<and> p_d (path c') = Drawn LineSlice sl))
            \<and> (at_jsnum (slices c) lf = None
                \<or> (jsnum_neq lf rt \<and> at_jsnum (slices c) rt = None) \<longrightarrow>
               (\<exists>c'. setRangeWithScaling rng c = Inl (TypeError, c')
                  \<and> mode c' = Detail
                  \<and> p_transform (path c') = NoTransform)))
       \<and> (\<not> (domain0 (x_live c) = fst rng \<and> domain1 (x_live c) = snd rng) \<longrightarrow>
            ((mode (state_after (setRangeWithScaling_p0 series rng c)) \<noteq> mode c)
               = (wanted sc (zoomStep c) \<noteq> mode c))
            \<and> (mode c = Overview \<and> jsnum_gt sc (real (zoomStep c)) \<longrightarrow>
                 (\<exists>c'. setRangeWithScaling_p0 series rng c = Inr c'
                    \<and> mode c' = Detail
                    \<and> p_transform (path c') = NoTransform
                    \<and> p_datum (path c') = Some series
                    \<and> p_d (path c') = Drawn LineSlice series)))"
proof -
  have a: "(mode (state_after (setRangeWithScaling rng c)) \<noteq> mode c)
      = (wanted sc (zoomStep c) \<noteq> mode c)"
    using need_after [OF assms(4), of rng]
    by (auto simp: mode_def wanted_def sc_def)
  have b: "mode c = Overview \<and> jsnum_gt sc (real (zoomStep c)) \<longrightarrow>
            (\<forall>sl. at_jsnum (slices c) lf = Some sl
                   \<and> (\<not> jsnum_neq lf rt \<or> at_jsnum (slices c) rt \<noteq> None) \<longrightarrow>
               (\<exists>c'. setRangeWithScaling rng c = Inr c'
                  \<and> mode c' = Detail
                  \<and> p_transform (path c') = NoTransform
                  \<and> p_datum (path c') = Some sl
                  \<and> p_d (path c') = Drawn LineSlice sl))
            \<and> (at_jsnum (slices c) lf = None
                \<or> (jsnum_neq lf rt \<and> at_jsnum (slices c) rt = None) \<longrightarrow>
               (\<exists>c'. setRangeWithScaling rng c = Inl (TypeError, c')
                  \<and> mode c' = Detail
                  \<and> p_transform (path c') = NoTransform))"
  proof (intro impI conjI allI)
    assume h: "mode c = Overview \<and> jsnum_gt sc (real (zoomStep c))"
    then have n: "needZoomOptimization c" by (simp add: mode_def split: if_splits)
    have g: "jsnum_gt (scale_of (set_domain rng (x_live c)) (plotX c)) (real (zoomStep c))"
      using h by (simp add: sc_def)
    {
      fix sl
      assume "at_jsnum (slices c) lf = Some sl
                   \<and> (\<not> jsnum_neq lf rt \<or> at_jsnum (slices c) rt \<noteq> None)"
      then show "\<exists>c'. setRangeWithScaling rng c = Inr c'
                  \<and> mode c' = Detail
                  \<and> p_transform (path c') = NoTransform
                  \<and> p_datum (path c') = Some sl
                  \<and> p_d (path c') = Drawn LineSlice sl"
        unfolding lf_def rt_def mode_Detail_iff by (intro detail_drawn [OF assms(4) n g]) blast+
    }
    {
      assume "at_jsnum (slices c) lf = None
                \<or> (jsnum_neq lf rt \<and> at_jsnum (slices c) rt = None)"
      then show "\<exists>c'. setRangeWithScaling rng c = Inl (TypeError, c')
                  \<and> mode c' = Detail
                  \<and> p_transform (path c') = NoTransform"
        unfolding lf_def rt_def mode_Detail_iff by (intro detail_throws [OF assms(4) n g]) blast
    }
  qed
  have c: "\<not> (domain0 (x_live c) = fst rng \<and> domain1 (x_live c) = snd rng) \<longrightarrow>
            ((mode (state_after (setRangeWithScaling_p0 series rng c)) \<noteq> mode c)
               = (wanted sc (zoomStep c) \<noteq> mode c))
            \<and> (mode c = Overview \<and> jsnum_gt sc (real (zoomStep c)) \<longrightarrow>
                 (\<exists>c'. setRangeWithScaling_p0 series rng c = Inr c'
                    \<and> mode c' = Detail
                    \<and> p_transform (path c') = NoTransform
                    \<and> p_datum (path c') = Some series
                    \<and> p_d (path c') = Drawn LineSlice series))"
  proof (intro impI conjI)
    assume d: "\<not> (domain0 (x_live c) = fst rng \<and> domain1 (x_live c) = snd rng)"
    show "(mode (state_after (setRangeWithScaling_p0 series rng c)) \<noteq> mode c)
               = (wanted sc (zoomStep c) \<noteq> mode c)"
      using need_after_p0 [OF assms(4) d, of series]
      by (auto simp: mode_def wanted_def sc_def)
    assume h: "mode c = Overview \<and> jsnum_gt sc (real (zoomStep c))"
    then have n: "needZoomOptimization c" by (simp add: mode_def split: if_splits)
    have g: "jsnum_gt (scale_of (set_domain rng (x_live c)) (plotX c)) (real (zoomStep c))"
      using h by (simp add: sc_def)
    show "\<exists>c'. setRangeWithScaling_p0 series rng c = Inr c'
                    \<and> mode c' = Detail
                    \<and> p_transform (path c') = NoTransform
                    \<and> p_datum (path c') = Some series
                    \<and> p_d (path c') = Drawn LineSlice series"
      unfolding mode_Detail_iff by (rule detail_drawn_p0 [OF assms(4) n d g])
  qed
  show ?thesis using a b c by blast
qed

text \<open>
  C2 amended, on the mounted example zoomed to \<open>(0, 1/2)\<close>: the scale is 20, above the
  zoom step 10, and both ends of the viewport fall in bucket 0; without buckets the
  same call throws.
\<close>

theorem setRangeWithScaling_mode_witness:
  "optimizedSeries example_mounted \<noteq> None
   \<and> mode example_mounted = Overview
   \<and> jsnum_gt (scale_of (set_domain (0, 1 / 2) (x_live example_mounted))
        (plotX example_mounted)) (real (zoomStep example_mounted))
   \<and> mode (state_after (setRangeWithScaling (0, 1 / 2) example_mounted)) = Detail
   \<and> (\<exists>c'. setRangeWithScaling (0, 1 / 2) example_mounted = Inr c'
         \<and> mode c' = Detail
         \<and> p_transform (path c') = NoTransform
         \<and> p_datum (path c') = Some (take 6 example_series)
         \<and> p_d (path c') = Drawn LineSlice (take 6 example_series))
   \<and> (\<exists>c'. setRangeWithScaling (0, 1 / 2) (example_mounted\<lparr>slices := []\<rparr>)
               = Inl (TypeError, c')
         \<and> mode c' = Detail)
   \<and> (\<exists>c'. setRangeWithScaling_p0 example_series (0, 1 / 2) example_mounted = Inr c'
         \<and> mode c' = Detail
         \<and> p_datum (path c') = Some example_series)"
proof -
  let ?e = "example_mounted\<lparr>slices := []\<rparr>"
  have sc: "scale_of (set_domain (0, 1 / 2) (x_live example_mounted)) (plotX example_mounted)
      = Num 20"
    by (simp add: example_mounted_def set_domain_def scale_of_def all_of_def scale_apply_def
        interpolate_def normalize_def js_div_def)
  have lf: "left_of (zoomStep example_mounted) (set_domain (0, 1 / 2) (x_live example_mounted))
      (plotX example_mounted) = Num 0"
    by (simp add: example_mounted_def set_domain_def left_of_def all_of_def scale_apply_def
        interpolate_def normalize_def js_div_def)
  have rt: "right_of (zoomStep example_mounted) (set_domain (0, 1 / 2) (x_live example_mounted))
      (plotX example_mounted) = Num 0"
    by (simp add: example_mounted_def set_domain_def right_of_def all_of_def scale_apply_def
        interpolate_def normalize_def js_div_def)
  have pre: "optimizedSeries example_mounted \<noteq> None" "mode example_mounted = Overview"
    "jsnum_gt (Num 20) (real (zoomStep example_mounted))"
    "\<not> (domain0 (x_live example_mounted) = fst (0, 1 / 2 :: real)
        \<and> domain1 (x_live example_mounted) = snd (0 :: real, 1 / 2 :: real))"
    "at_jsnum (slices example_mounted) (Num 0) = Some (take 6 example_series)"
    by (simp_all add: example_mounted_def mode_def at_index_def)
  have pre': "optimizedSeries ?e \<noteq> None" "mode ?e = Overview"
    "zoomStep ?e = zoomStep example_mounted" "x_live ?e = x_live example_mounted"
    "plotX ?e = plotX example_mounted" "at_jsnum (slices ?e) (Num 0) = None"
    by (simp_all add: example_mounted_def mode_def at_index_def)
  have a: "mode (state_after (setRangeWithScaling (0, 1 / 2) example_mounted)) = Detail
     \<and> (\<exists>c'. setRangeWithScaling (0, 1 / 2) example_mounted = Inr c'
         \<and> mode c' = Detail
         \<and> p_transform (path c') = NoTransform
         \<and> p_datum (path c') = Some (take 6 example_series)
         \<and> p_d (path c') = Drawn LineSlice (take 6 example_series))
     \<and> (\<exists>c'. setRangeWithScaling_p0 example_series (0, 1 / 2) example_mounted = Inr c'
         \<and> mode c' = Detail
         \<and> p_datum (path c') = Some example_series)"
    using setRangeWithScaling_mode [OF pre(1), of "(0, 1 / 2)" example_series] pre
    by (auto simp: sc lf rt wanted_def state_after_def)
  have b: "\<exists>c'. setRangeWithScaling (0, 1 / 2) ?e = Inl (TypeError, c') \<and> mode c' = Detail"
    using setRangeWithScaling_mode [OF pre'(1), of "(0, 1 / 2)" example_series] pre' pre(3)
    by (auto simp: sc lf rt)
  show ?thesis using a b pre by (simp add: sc)
qed

end
